theory Spec2Isabelle
  imports Main "HOL-Library.Sublist"
begin

section \<open>Python strings\<close>

text \<open>
  A Python \<open>str\<close> is a sequence of code points. The model is \<^typ>\<open>string\<close>, a list of
  \<^typ>\<open>char\<close>, each \<^typ>\<open>char\<close> read as the code point of the same number, so the model
  covers the strings whose code points are below 256 (ASCII and Latin-1).
\<close>

definition isspace :: "char \<Rightarrow> bool" where
  \<comment> \<open>\<open>str.isspace\<close> on one code point below 256: U+0009..U+000D, U+001C..U+0020,
      U+0085 and U+00A0.\<close>
  "isspace c =
     (let n = (of_char c :: nat)
      in (9 \<le> n \<and> n \<le> 13) \<or> (28 \<le> n \<and> n \<le> 32) \<or> n = 133 \<or> n = 160)"

definition strip :: "string \<Rightarrow> string" where
  \<comment> \<open>\<open>s.strip()\<close>: leading and trailing whitespace removed.\<close>
  "strip s = rev (dropWhile isspace (rev (dropWhile isspace s)))"

definition lower_char :: "char \<Rightarrow> char" where
  \<comment> \<open>Lower case of one code point below 256: A..Z, and U+00C0..U+00DE but for the
      multiplication sign U+00D7, move up by 32.\<close>
  "lower_char c =
     (let n = (of_char c :: nat)
      in if (65 \<le> n \<and> n \<le> 90) \<or> (192 \<le> n \<and> n \<le> 222 \<and> n \<noteq> 215)
         then char_of (n + 32) else c)"

definition lower :: "string \<Rightarrow> string" where
  \<comment> \<open>\<open>s.lower()\<close>\<close>
  "lower s = map lower_char s"

fun py_in :: "string \<Rightarrow> string \<Rightarrow> bool" where
  \<comment> \<open>\<open>p in s\<close> on strings: \<open>p\<close> occurs in \<open>s\<close> as a contiguous substring.\<close>
  "py_in p [] = (p = [])"
| "py_in p (c # cs) = (prefix p (c # cs) \<or> py_in p cs)"


section \<open>The counter and the chat listener\<close>

text \<open>
  The process state is the module's global \<open>counter = 0\<close> (line 31), a Python integer,
  which has no bound.
\<close>

record state =
  counter :: int

definition init_state :: state where
  "init_state = \<lparr>counter = 0\<rparr>"

record message =
  content :: string

definition event_message :: "state \<Rightarrow> message \<Rightarrow> state" where
  \<comment> \<open>\<open>TwitchBot.event_message\<close>, lines 171-177.\<close>
  "event_message s message =
     (let content = lower (strip (content message))
      in if py_in ''+2'' content then s\<lparr>counter := counter s + 2\<rparr>
         else if py_in ''-2'' content then s\<lparr>counter := counter s - 2\<rparr>
         else s)"

definition handle_messages :: "state \<Rightarrow> message list \<Rightarrow> state" where
  \<comment> \<open>The listener handles the messages of the channel one after the other.\<close>
  "handle_messages s ms = foldl event_message s ms"

definition read :: "state \<Rightarrow> int" where
  \<comment> \<open>Reading the counter store.\<close>
  "read s = counter s"

definition normalized :: "message \<Rightarrow> string" where
  \<comment> \<open>The specification's normalization of a message: trimmed and case-folded.\<close>
  "normalized m = lower (strip (content m))"

definition spec_delta :: "message \<Rightarrow> int" where
  \<comment> \<open>The specification's delta of a message: +2 for the +2 rule, -2 for the -2 rule
      (the text contains -2 and the +2 rule did not apply), 0 otherwise.\<close>
  "spec_delta m =
     (if py_in ''+2'' (normalized m) then 2
      else if py_in ''-2'' (normalized m) then - 2
      else 0)"


definition reset_counter :: "state \<Rightarrow> (string \<times> nat) \<times> state" where
  \<comment> \<open>\<open>reset_counter\<close>, lines 190-194: the response (body, status) and the new state.\<close>
  "reset_counter s = (('''', 204), s\<lparr>counter := 0\<rparr>)"

datatype request = Chat message | Reset

fun handle :: "state \<Rightarrow> request \<Rightarrow> state" where
  "handle s (Chat m) = event_message s m"
| "handle s Reset = snd (reset_counter s)"

inductive reachable :: "state \<Rightarrow> bool" where
  startup: "reachable init_state"
| step: "reachable s \<Longrightarrow> reachable (handle s r)"

definition msg :: "string \<Rightarrow> message" where
  "msg c = \<lparr>content = c\<rparr>"


section \<open>Substring matching\<close>

lemma py_in_sublist: "py_in p s = sublist p s"
  by (induction s) (auto simp: sublist_Cons_right)

lemma event_message_delta: "counter (event_message s m) = counter s + spec_delta m"
  by (simp add: event_message_def spec_delta_def normalized_def Let_def)

lemma handle_messages_sum:
  "counter (handle_messages s ms) = counter s + sum_list (map spec_delta ms)"
  unfolding handle_messages_def
  by (induction ms arbitrary: s) (simp_all add: event_message_delta)

lemma normalized_both: "normalized (msg ''  +2 AND -2 '') = ''+2 and -2''"
  by code_simp

lemma normalized_neither: "normalized (msg ''Hello 2+ and 2-'') = ''hello 2+ and 2-''"
  by code_simp


section \<open>The chat listener's claims\<close>

text \<open>
  C1. Starting from counter 0, after the listener has handled any finite sequence of
  chat messages, reading the counter gives the sum of the messages' deltas: +2 for a
  message the +2 rule matches, -2 for one the -2 rule matches, 0 for any other. The
  messages "+2 nice", "-2 aw", "+2" leave the counter at 2.
\<close>

theorem read_after_messages:
  "read (handle_messages init_state ms) = sum_list (map spec_delta ms)
   \<and> read (handle_messages init_state [msg ''+2 nice'', msg ''-2 aw'', msg ''+2'']) = 2"
proof
  have "counter init_state = 0"
    by (simp add: init_state_def)
  then show "read (handle_messages init_state ms) = sum_list (map spec_delta ms)"
    by (simp add: read_def handle_messages_sum)
next
  show "read (handle_messages init_state [msg ''+2 nice'', msg ''-2 aw'', msg ''+2'']) = 2"
    by code_simp
qed

text \<open>
  C2. A message whose normalized content contains both "+2" and "-2" adds exactly 2 to
  the counter: the +2 branch is taken and the -2 branch is not.
\<close>

theorem both_patterns_add_two:
  assumes "py_in ''+2'' (normalized m)" and "py_in ''-2'' (normalized m)"
  shows "event_message s m = s\<lparr>counter := counter s + 2\<rparr>"
  using assms(1) by (simp add: event_message_def normalized_def)

theorem both_patterns_add_two_witness:
  "py_in ''+2'' (normalized (msg ''  +2 AND -2 ''))
   \<and> py_in ''-2'' (normalized (msg ''  +2 AND -2 ''))
   \<and> event_message \<lparr>counter = 40\<rparr> (msg ''  +2 AND -2 '') = \<lparr>counter = 42\<rparr>"
proof -
  have plus: "py_in ''+2'' (normalized (msg ''  +2 AND -2 ''))"
    by (simp add: normalized_both)
  have minus: "py_in ''-2'' (normalized (msg ''  +2 AND -2 ''))"
    by (simp add: normalized_both)
  from both_patterns_add_two [OF plus minus, of "\<lparr>counter = 40\<rparr>"] plus minus
  show ?thesis by simp
qed

text \<open>
  C4. A message whose normalized content contains neither "+2" nor "-2" leaves the
  state as it was.
\<close>

theorem no_pattern_no_change:
  assumes "\<not> py_in ''+2'' (normalized m)" and "\<not> py_in ''-2'' (normalized m)"
  shows "event_message s m = s"
  using assms by (simp add: event_message_def normalized_def)

theorem no_pattern_no_change_witness:
  "\<not> py_in ''+2'' (normalized (msg ''Hello 2+ and 2-''))
   \<and> \<not> py_in ''-2'' (normalized (msg ''Hello 2+ and 2-''))
   \<and> event_message \<lparr>counter = 6\<rparr> (msg ''Hello 2+ and 2-'') = \<lparr>counter = 6\<rparr>"
proof -
  have plus: "\<not> py_in ''+2'' (normalized (msg ''Hello 2+ and 2-''))"
    by (simp add: normalized_neither)
  have minus: "\<not> py_in ''-2'' (normalized (msg ''Hello 2+ and 2-''))"
    by (simp add: normalized_neither)
  from no_pattern_no_change [OF plus minus, of "\<lparr>counter = 6\<rparr>"] plus minus
  show ?thesis by simp
qed


section \<open>Reset\<close>

text \<open>
  C3. Whatever the counter was, a reset leaves it at 0 and answers with an empty body
  and the success status 204 (No Content); a second reset right after the first changes
  nothing more.
\<close>

theorem reset_counter_zero_idempotent:
  "read (snd (reset_counter s)) = 0
   \<and> fst (reset_counter s) = ('''', 204)
   \<and> reset_counter (snd (reset_counter s)) = reset_counter s"
  by (simp add: reset_counter_def read_def)


section \<open>The counter stays even\<close>

lemma event_message_even: "even (counter s) \<Longrightarrow> even (counter (event_message s m))"
  by (simp add: event_message_delta spec_delta_def)

lemma handle_even: "even (counter s) \<Longrightarrow> even (counter (handle s r))"
  by (cases r) (simp_all add: event_message_even reset_counter_def)

text \<open>
  C10. In every state reachable from startup by handling chat messages and resets, the
  counter is even.
\<close>

theorem reachable_counter_even:
  assumes "reachable s"
  shows "even (counter s)"
  using assms
proof (induction rule: reachable.induct)
  case startup
  show ?case by (simp add: init_state_def)
next
  case (step s r)
  then show ?case by (simp add: handle_even)
qed

theorem reachable_counter_even_witness:
  "reachable (handle (handle (handle init_state (Chat (msg ''-2''))) Reset) (Chat (msg ''-2 -2'')))
   \<and> even (counter (handle (handle (handle init_state (Chat (msg ''-2''))) Reset) (Chat (msg ''-2 -2''))))
   \<and> counter (handle (handle (handle init_state (Chat (msg ''-2''))) Reset) (Chat (msg ''-2 -2''))) = - 2"
proof -
  have r: "reachable (handle (handle (handle init_state (Chat (msg ''-2''))) Reset) (Chat (msg ''-2 -2'')))"
    by (intro reachable.step reachable.startup)
  have v: "counter (handle (handle (handle init_state (Chat (msg ''-2''))) Reset) (Chat (msg ''-2 -2''))) = - 2"
    by code_simp
  from reachable_counter_even [OF r] r v show ?thesis by simp
qed

end
